theory Spec2Isabelle
  imports Main
begin

section \<open>Python string operations used by the program\<close>

text \<open>
  Python strings are modelled as \<^typ>\<open>string\<close>; a character is a code point below 256.
  Each operation below is the Python built-in of the same name, restricted to the way
  the program calls it.
\<close>

definition replace_char :: "char \<Rightarrow> char \<Rightarrow> string \<Rightarrow> string" where
  \<comment> \<open>\<open>s.replace(old, new)\<close> for one-character \<open>old\<close> and \<open>new\<close>\<close>
  "replace_char old new s = map (\<lambda>c. if c = old then new else c) s"


definition is_space :: "char \<Rightarrow> bool" where
  \<comment> \<open>the characters \<open>str.isspace\<close> accepts, below code point 256\<close>
  "is_space c =
     (let n = (of_char c :: nat)
      in (9 \<le> n \<and> n \<le> 13) \<or> (28 \<le> n \<and> n \<le> 32) \<or> n = 133 \<or> n = 160)"

definition strip :: "string \<Rightarrow> string" where
  \<comment> \<open>\<open>s.strip()\<close>\<close>
  "strip s = rev (dropWhile is_space (rev (dropWhile is_space s)))"

fun startswith :: "string \<Rightarrow> string \<Rightarrow> bool" where
  \<comment> \<open>\<open>s.startswith(p)\<close>\<close>
  "startswith s [] = True"
| "startswith [] (p # ps) = False"
| "startswith (c # cs) (p # ps) = (c = p \<and> startswith cs ps)"

definition endswith :: "string \<Rightarrow> string \<Rightarrow> bool" where
  \<comment> \<open>\<open>s.endswith(p)\<close>\<close>
  "endswith s p = startswith (rev s) (rev p)"

fun contains :: "string \<Rightarrow> string \<Rightarrow> bool" where
  \<comment> \<open>\<open>sub in s\<close>\<close>
  "contains [] sub = (sub = [])"
| "contains (c # cs) sub = (startswith (c # cs) sub \<or> contains cs sub)"

fun split_from :: "string \<Rightarrow> string \<Rightarrow> string \<Rightarrow> string list" where
  \<comment> \<open>scan for non-overlapping occurrences of \<open>sep\<close>, left to right; \<open>cur\<close> is the
      reversed piece read so far\<close>
  "split_from sep cur [] = [rev cur]"
| "split_from sep cur (c # cs) =
     (if sep \<noteq> [] \<and> startswith (c # cs) sep
      then rev cur # split_from sep [] (drop (length sep - 1) cs)
      else split_from sep (c # cur) cs)"

definition str_split :: "string \<Rightarrow> string \<Rightarrow> string list" where
  \<comment> \<open>\<open>s.split(sep)\<close> for a non-empty separator\<close>
  "str_split s sep = split_from sep [] s"

fun readlines_from :: "string \<Rightarrow> string \<Rightarrow> string list" where
  "readlines_from cur [] = (if cur = [] then [] else [rev cur])"
| "readlines_from cur (c # cs) =
     (if c = CHR 0x0A then rev (c # cur) # readlines_from [] cs
      else readlines_from (c # cur) cs)"

definition readlines :: "string \<Rightarrow> string list" where
  \<comment> \<open>the lines \<open>for line in f\<close> yields for a text file with contents \<open>t\<close>: each line
      keeps its newline, and there is no empty last line\<close>
  "readlines t = readlines_from [] t"

definition lower_char :: "char \<Rightarrow> char" where
  "lower_char c =
     (let n = (of_char c :: nat)
      in if (65 \<le> n \<and> n \<le> 90) \<or> (192 \<le> n \<and> n \<le> 222 \<and> n \<noteq> 215)
         then char_of (n + 32) else c)"

definition str_lower :: "string \<Rightarrow> string" where
  \<comment> \<open>\<open>s.lower()\<close>\<close>
  "str_lower s = map lower_char s"

definition splitext_ext :: "string \<Rightarrow> string" where
  \<comment> \<open>\<open>os.path.splitext(p)[1]\<close>: the suffix from the last dot of the last path
      component, empty when that component has no dot or only leading dots before it\<close>
  "splitext_ext p =
     (let tail = rev (takeWhile (\<lambda>c. c \<noteq> CHR ''/'') (rev p));
          suf = rev (takeWhile (\<lambda>c. c \<noteq> CHR ''.'') (rev tail));
          stem = rev (drop 1 (dropWhile (\<lambda>c. c \<noteq> CHR ''.'') (rev tail)))
      in if CHR ''.'' \<in> set tail \<and> dropWhile (\<lambda>c. c = CHR ''.'') stem \<noteq> []
         then CHR ''.'' # suf else [])"

datatype error = UnicodeDecodeError | IsADirectoryError | IndexError | EndpointError string

fun item :: "'a list \<Rightarrow> nat \<Rightarrow> error + 'a" where
  \<comment> \<open>\<open>xs[i]\<close> for \<open>i \<ge> 0\<close>\<close>
  "item [] i = Inl IndexError"
| "item (x # xs) 0 = Inr x"
| "item (x # xs) (Suc i) = item xs i"

section \<open>repository_handler.py\<close>

text \<open>
  The directory tree below the repository path. A file carries what the program reads
  from it: its size in bytes, whether \<open>open(path, 'r').read(1024)\<close> succeeds, the text
  \<open>open(path, 'r')\<close> yields for the whole file (\<open>None\<close> when decoding raises
  \<open>UnicodeDecodeError\<close>), and the text read with \<open>encoding='utf-8', errors='ignore'\<close>.
  Entries of a directory are in the order the operating system lists them.
\<close>

record file_attrs =
  getsize :: nat
  head_decodes :: bool
  locale_text :: "string option"
  utf8_text :: string

datatype fsnode = File string file_attrs | Dir string "fsnode list"

fun nondirs :: "fsnode list \<Rightarrow> (string \<times> file_attrs) list" where
  \<comment> \<open>the \<open>files\<close> of a directory listing\<close>
  "nondirs [] = []"
| "nondirs (File n a # es) = (n, a) # nondirs es"
| "nondirs (Dir n sub # es) = nondirs es"

fun subdirs :: "fsnode list \<Rightarrow> fsnode list" where
  \<comment> \<open>the \<open>dirs\<close> of a directory listing\<close>
  "subdirs [] = []"
| "subdirs (File n a # es) = subdirs es"
| "subdirs (Dir n sub # es) = Dir n sub # subdirs es"

fun node_name :: "fsnode \<Rightarrow> string" where
  "node_name (File n a) = n"
| "node_name (Dir n sub) = n"

fun remove_git :: "fsnode list \<Rightarrow> fsnode list" where
  \<comment> \<open>\<open>if '.git' in dirs: dirs.remove('.git')\<close>\<close>
  "remove_git [] = []"
| "remove_git (d # ds) = (if node_name d = ''.git'' then ds else d # remove_git ds)"

definition join_path :: "string \<Rightarrow> string \<Rightarrow> string" where
  \<comment> \<open>the path of entry \<open>n\<close> of directory \<open>rel\<close>, relative to the repository root\<close>
  "join_path rel n = (if rel = [] then n else rel @ ''/'' @ n)"

lemma remove_git_subset: "set (remove_git ds) \<subseteq> set ds"
  by (induction ds) (auto split: if_splits)

lemma subdirs_subset: "set (subdirs es) \<subseteq> set es"
  by (induction es rule: subdirs.induct) auto

lemma node_in_listing_size: "d \<in> set es \<Longrightarrow> size d < Suc (size_list size es)"
  by (induction es) auto

function walk_dir :: "string \<Rightarrow> fsnode \<Rightarrow> (string \<times> string \<times> file_attrs) list" where
  \<comment> \<open>the files \<open>os.walk\<close> reaches from the directory with relative path \<open>rel\<close>, top
      down, as (relative path, name, attributes): the files of the directory first, then
      its subdirectories except \<open>.git\<close>\<close>
  "walk_dir rel (File n a) = []"
| "walk_dir rel (Dir n es) =
     map (\<lambda>(f, a). (join_path rel f, f, a)) (nondirs es)
     @ concat (map (\<lambda>d. walk_dir (join_path rel (node_name d)) d) (remove_git (subdirs es)))"
  by pat_completeness auto
termination
proof (relation "measure (\<lambda>(rel, d). size d)")
  show "wf (measure (\<lambda>(rel, d). size d))" by simp
next
  fix rel n :: string and es :: "fsnode list" and d
  assume "d \<in> set (remove_git (subdirs es))"
  then have "d \<in> set es"
    using remove_git_subset subdirs_subset by blast
  then show "((join_path rel (node_name d), d), (rel, Dir n es)) \<in> measure (\<lambda>(rel, d). size d)"
    using node_in_listing_size by simp
qed

definition walk :: "fsnode list \<Rightarrow> (string \<times> string \<times> file_attrs) list" where
  \<comment> \<open>\<open>os.walk(self.repo_path)\<close>, on the listing of the repository's top directory\<close>
  "walk root = walk_dir [] (Dir [] root)"

function files_under_dir :: "string \<Rightarrow> fsnode \<Rightarrow> (string \<times> string \<times> file_attrs) list" where
  \<comment> \<open>every file below a directory, \<open>.git\<close> included\<close>
  "files_under_dir rel (File n a) = []"
| "files_under_dir rel (Dir n es) =
     map (\<lambda>(f, a). (join_path rel f, f, a)) (nondirs es)
     @ concat (map (\<lambda>d. files_under_dir (join_path rel (node_name d)) d) (subdirs es))"
  by pat_completeness auto
termination
proof (relation "measure (\<lambda>(rel, d). size d)")
  show "wf (measure (\<lambda>(rel, d). size d))" by simp
next
  fix rel n :: string and es :: "fsnode list" and d
  assume "d \<in> set (subdirs es)"
  then have "d \<in> set es"
    using subdirs_subset by blast
  then show "((join_path rel (node_name d), d), (rel, Dir n es)) \<in> measure (\<lambda>(rel, d). size d)"
    using node_in_listing_size by simp
qed

definition files_under :: "fsnode list \<Rightarrow> (string \<times> string \<times> file_attrs) list" where
  \<comment> \<open>what "every file under the repository root" ranges over\<close>
  "files_under root = files_under_dir [] (Dir [] root)"

definition is_binary_file :: "file_attrs \<Rightarrow> bool" where
  \<comment> \<open>\<open>_is_binary_file\<close>: \<open>False\<close> when reading the first 1024 characters succeeds,
      \<open>True\<close> on \<open>UnicodeDecodeError\<close>\<close>
  "is_binary_file a = (if head_decodes a then False else True)"

definition determine_file_type :: "string \<Rightarrow> string" where
  "determine_file_type filename =
     (let ext = str_lower (splitext_ext filename)
      in if ext \<in> set [''.py''] then ''python''
         else if ext \<in> set [''.r'', ''.rmd''] then ''r''
         else if ext \<in> set [''.sh'', ''.bash''] then ''shell''
         else if ext \<in> set [''.c'', ''.cpp'', ''.cc'', ''.h'', ''.hpp''] then ''c++''
         else if ext \<in> set [''.java''] then ''java''
         else if ext \<in> set [''.js'', ''.ts''] then ''javascript''
         else if ext \<in> set [''.md'', ''.markdown''] then ''markdown''
         else if ext \<in> set [''.json''] then ''json''
         else if ext \<in> set [''.yml'', ''.yaml''] then ''yaml''
         else if ext \<in> set [''.txt''] then ''text''
         else if ext \<in> set [''.csv'', ''.tsv''] then ''data''
         else ''other'')"

record file_record =
  fr_path :: string
  fr_type :: string
  fr_size :: nat

fun bump :: "(string \<times> nat) list \<Rightarrow> string \<Rightarrow> (string \<times> nat) list" where
  \<comment> \<open>\<open>languages[file_type] += 1\<close>, or \<open>= 1\<close> for a new key (appended, as a dict
      keeps insertion order)\<close>
  "bump [] k = [(k, 1)]"
| "bump ((k', c) # kvs) k = (if k' = k then (k', c + 1) # kvs else (k', c) # bump kvs k)"

fun scan :: "(string \<times> string \<times> file_attrs) list \<Rightarrow> file_record list \<times> (string \<times> nat) list
               \<Rightarrow> file_record list \<times> (string \<times> nat) list" where
  \<comment> \<open>the body of the loop over the walked files, on the accumulated
      \<open>repo_structure['files']\<close> and \<open>repo_structure['languages']\<close>\<close>
  "scan [] acc = acc"
| "scan ((rel_path, file, a) # rest) (files, languages) =
     (if is_binary_file a \<or> getsize a > 1000000 then scan rest (files, languages)
      else let file_type = determine_file_type file
           in scan rest
                (files @ [\<lparr>fr_path = rel_path, fr_type = file_type, fr_size = getsize a\<rparr>],
                 bump languages file_type))"

fun identify_entry_points :: "file_record list \<Rightarrow> string list" where
  "identify_entry_points [] = []"
| "identify_entry_points (file # files) =
     (if endswith (fr_path file) ''main.py'' \<or> endswith (fr_path file) ''run.py''
         \<or> endswith (fr_path file) ''app.py''
      then fr_path file # identify_entry_points files
      else if startswith (fr_path file) ''bin/'' \<and> fr_type file \<in> set [''python'', ''r'', ''shell'']
      then fr_path file # identify_entry_points files
      else if endswith (fr_path file) ''setup.py''
      then fr_path file # identify_entry_points files
      else identify_entry_points files)"

record dependencies =
  dep_python :: "string list"
  dep_r :: "string list"
  dep_system :: "string list"

fun lookup_entry :: "string \<Rightarrow> fsnode list \<Rightarrow> fsnode option" where
  \<comment> \<open>the entry of the repository's top directory with the given name, if it exists\<close>
  "lookup_entry name [] = None"
| "lookup_entry name (File n a # es) = (if n = name then Some (File n a) else lookup_entry name es)"
| "lookup_entry name (Dir n sub # es) = (if n = name then Some (Dir n sub) else lookup_entry name es)"

fun read_text :: "fsnode \<Rightarrow> error + string" where
  \<comment> \<open>\<open>open(path, 'r')\<close> and reading all of it\<close>
  "read_text (Dir n sub) = Inl IsADirectoryError"
| "read_text (File n a) =
     (case locale_text a of None \<Rightarrow> Inl UnicodeDecodeError | Some t \<Rightarrow> Inr t)"

fun requirement_lines :: "string list \<Rightarrow> string list" where
  \<comment> \<open>the loop over the lines of \<open>requirements.txt\<close>\<close>
  "requirement_lines [] = []"
| "requirement_lines (line # rest) =
     (let line = strip line
      in if line \<noteq> [] \<and> \<not> startswith line ''#'' then line # requirement_lines rest
         else requirement_lines rest)"

fun import_lines :: "string list \<Rightarrow> error + string list" where
  \<comment> \<open>the loop over the lines of the \<open>Imports:\<close> section\<close>
  "import_lines [] = Inr []"
| "import_lines (line # rest) =
     (case item (str_split (strip line) '','') 0 of
        Inl e \<Rightarrow> Inl e
      | Inr line \<Rightarrow>
          (case import_lines rest of
             Inl e \<Rightarrow> Inl e
           | Inr deps \<Rightarrow> Inr (if line \<noteq> [] then line # deps else deps)))"

definition description_imports :: "string \<Rightarrow> error + string list" where
  "description_imports content =
     (if contains content ''Imports:'' then
        (case item (str_split content ''Imports:'') 1 of
           Inl e \<Rightarrow> Inl e
         | Inr after \<Rightarrow>
             (case item (str_split after [CHR 0x0A, CHR 0x0A]) 0 of
                Inl e \<Rightarrow> Inl e
              | Inr imports_section \<Rightarrow> import_lines (str_split imports_section [CHR 0x0A])))
      else Inr [])"

definition python_dependencies :: "fsnode list \<Rightarrow> error + string list" where
  "python_dependencies root =
     (case lookup_entry ''requirements.txt'' root of
        None \<Rightarrow> Inr []
      | Some e \<Rightarrow>
          (case read_text e of Inl err \<Rightarrow> Inl err | Inr t \<Rightarrow> Inr (requirement_lines (readlines t))))"

definition r_dependencies :: "fsnode list \<Rightarrow> error + string list" where
  "r_dependencies root =
     (case lookup_entry ''DESCRIPTION'' root of
        None \<Rightarrow> Inr []
      | Some e \<Rightarrow>
          (case read_text e of Inl err \<Rightarrow> Inl err | Inr content \<Rightarrow> description_imports content))"

definition identify_dependencies :: "fsnode list \<Rightarrow> error + dependencies" where
  "identify_dependencies root =
     (case python_dependencies root of
        Inl err \<Rightarrow> Inl err
      | Inr py \<Rightarrow>
          (case r_dependencies root of
             Inl err \<Rightarrow> Inl err
           | Inr rdeps \<Rightarrow> Inr \<lparr>dep_python = py, dep_r = rdeps, dep_system = []\<rparr>))"

record handler =
  repo_name :: string
  repo_path :: string

record repo_structure =
  rs_name :: string
  rs_path :: string
  rs_files :: "file_record list"
  rs_languages :: "(string \<times> nat) list"
  rs_entry_points :: "string list"
  rs_dependencies :: dependencies

definition analyze_repository_structure :: "handler \<Rightarrow> fsnode list \<Rightarrow> error + repo_structure" where
  \<comment> \<open>\<open>root\<close> is the listing of the directory at \<open>repo_path\<close>; an exception raised
      inside is logged and raised again, so it is the result\<close>
  "analyze_repository_structure h root =
     (case scan (walk root) ([], []) of
        (files, languages) \<Rightarrow>
          (case identify_dependencies root of
             Inl err \<Rightarrow> Inl err
           | Inr deps \<Rightarrow>
               Inr \<lparr>rs_name = repo_name h, rs_path = repo_path h, rs_files = files,
                    rs_languages = languages,
                    rs_entry_points = identify_entry_points files,
                    rs_dependencies = deps\<rparr>))"

section \<open>llm_agent.py\<close>

text \<open>
  What a run does to the outside world is recorded as a trace of events, oldest first:
  each call of a logger method, each \<open>time.sleep\<close>, and each request sent to the
  completion endpoint. The endpoint is a parameter: \<open>complete k prompt\<close> is the outcome
  of \<open>client.chat.completions.create\<close> followed by reading
  \<open>response.choices[0].message.content\<close>, for the request that is sent after \<open>k\<close>
  earlier ones; \<open>Inl\<close> is the exception raised, \<open>Inr\<close> the text.
\<close>

datatype level = DEBUG | INFO | WARNING | ERROR

datatype event = Log level string | Sleep nat | Call string

type_synonym trace = "event list"

type_synonym endpoint = "nat \<Rightarrow> string \<Rightarrow> error + string"

fun is_call :: "event \<Rightarrow> bool" where
  "is_call (Call prompt) = True"
| "is_call (Log l m) = False"
| "is_call (Sleep n) = False"

fun is_effect :: "event \<Rightarrow> bool" where
  \<comment> \<open>the events other than log records\<close>
  "is_effect (Call prompt) = True"
| "is_effect (Sleep n) = True"
| "is_effect (Log l m) = False"

fun is_query_log :: "event \<Rightarrow> bool" where
  \<comment> \<open>the \<open>logger.debug\<close> at the start of \<open>query\<close>, the only debug message of the program\<close>
  "is_query_log (Log DEBUG m) = True"
| "is_query_log (Log INFO m) = False"
| "is_query_log (Log WARNING m) = False"
| "is_query_log (Log ERROR m) = False"
| "is_query_log (Call prompt) = False"
| "is_query_log (Sleep n) = False"

definition calls :: "trace \<Rightarrow> nat" where
  \<comment> \<open>the number of requests sent to the endpoint\<close>
  "calls t = length (filter is_call t)"

definition queries :: "trace \<Rightarrow> nat" where
  \<comment> \<open>the number of invocations of \<open>LLMAgent.query\<close>\<close>
  "queries t = length (filter is_query_log t)"

fun str_nat :: "nat \<Rightarrow> string" where
  \<comment> \<open>\<open>str(n)\<close>\<close>
  "str_nat n =
     (if n < 10 then [char_of (48 + n)] else str_nat (n div 10) @ [char_of (48 + n mod 10)])"

declare str_nat.simps [simp del]

fun str_error :: "error \<Rightarrow> string" where
  \<comment> \<open>\<open>str(e)\<close>\<close>
  "str_error UnicodeDecodeError = ''UnicodeDecodeError''"
| "str_error IsADirectoryError = ''IsADirectoryError''"
| "str_error IndexError = ''IndexError''"
| "str_error (EndpointError m) = m"

record agent =
  ag_api_key :: string
  ag_model :: string
  max_retries :: nat
  retry_delay :: nat

definition LLMAgent :: "string \<Rightarrow> string \<Rightarrow> agent" where
  \<comment> \<open>\<open>LLMAgent.__init__\<close>; the sampling temperature is passed through to the endpoint
      and is left out\<close>
  "LLMAgent api_key model =
     \<lparr>ag_api_key = api_key, ag_model = model, max_retries = 3, retry_delay = 5\<rparr>"

fun query_attempts :: "agent \<Rightarrow> endpoint \<Rightarrow> string \<Rightarrow> nat list \<Rightarrow> trace
                        \<Rightarrow> (error + string option) \<times> trace" where
  \<comment> \<open>the \<open>for attempt in ...\<close> loop of \<open>query\<close> over the attempts still to make; a loop
      that runs out falls off the end of the function, which returns \<open>None\<close>\<close>
  "query_attempts ag complete prompt [] t = (Inr None, t)"
| "query_attempts ag complete prompt (attempt # rest) t =
     (case complete (calls t) prompt of
        Inr content \<Rightarrow> (Inr (Some content), t @ [Call prompt])
      | Inl e \<Rightarrow>
          (let t1 = t @ [Call prompt,
                         Log WARNING (''Error querying LLM (attempt '' @ str_nat (attempt + 1)
                                      @ ''/'' @ str_nat (max_retries ag) @ ''): '' @ str_error e)]
           in if attempt < max_retries ag - 1
              then query_attempts ag complete prompt rest
                     (t1 @ [Log INFO (''Retrying in '' @ str_nat (retry_delay ag) @ '' seconds...''),
                            Sleep (retry_delay ag)])
              else (Inl e,
                    t1 @ [Log ERROR ''Maximum retry attempts reached. Raising exception.''])))"

definition query :: "agent \<Rightarrow> endpoint \<Rightarrow> string \<Rightarrow> trace \<Rightarrow> (error + string option) \<times> trace" where
  \<comment> \<open>\<open>LLMAgent.query(prompt)\<close>: \<open>Inl\<close> is the exception raised to the caller\<close>
  "query ag complete prompt t =
     query_attempts ag complete prompt [0..<max_retries ag]
       (t @ [Log DEBUG (''Querying LLM with prompt: '' @ take 100 prompt @ ''...'')])"

section \<open>workflow_analyzer.py\<close>

text \<open>
  A value returned by \<open>json.loads\<close>. The parser is a parameter of the model:
  \<open>json_loads s\<close> is \<open>None\<close> when \<open>json.loads(s)\<close> raises. The four prompt templates are
  parameters too: each is a fixed text with the given values interpolated, and nothing
  proved below depends on the text.
\<close>

datatype json =
  JNull | JBool bool | JNumber int | JString string | JArray "json list"
  | JObject "(string \<times> json) list"

record env =
  complete :: endpoint
  json_loads :: "string \<Rightarrow> json option"
  entry_point_prompt :: "string \<Rightarrow> string \<Rightarrow> string"
  workflow_prompt :: "string \<Rightarrow> json \<Rightarrow> string \<Rightarrow> string"
  scaling_prompt :: "json list \<Rightarrow> string"
  bottleneck_prompt :: "json list \<Rightarrow> string"

fun truthy :: "json \<Rightarrow> bool" where
  \<comment> \<open>the truth value Python gives a parsed JSON value\<close>
  "truthy JNull = False"
| "truthy (JBool b) = b"
| "truthy (JNumber n) = (n \<noteq> 0)"
| "truthy (JString s) = (s \<noteq> [])"
| "truthy (JArray xs) = (xs \<noteq> [])"
| "truthy (JObject kvs) = (kvs \<noteq> [])"

fun dict_get :: "(string \<times> json) list \<Rightarrow> string \<Rightarrow> json \<Rightarrow> json" where
  \<comment> \<open>\<open>d.get(k, dflt)\<close>\<close>
  "dict_get [] k dflt = dflt"
| "dict_get ((k', v) # kvs) k dflt = (if k' = k then v else dict_get kvs k dflt)"

fun dict_set :: "(string \<times> json) list \<Rightarrow> string \<Rightarrow> json \<Rightarrow> (string \<times> json) list" where
  \<comment> \<open>\<open>d[k] = v\<close>: an existing key keeps its place, a new one goes last\<close>
  "dict_set [] k v = [(k, v)]"
| "dict_set ((k', v') # kvs) k v = (if k' = k then (k', v) # kvs else (k', v') # dict_set kvs k v)"

record analysis_file =
  af_path :: string
  af_content :: string

definition is_code_file :: "string \<Rightarrow> bool" where
  "is_code_file filename =
     (str_lower (splitext_ext filename)
        \<in> set [''.py'', ''.r'', ''.rmd'', ''.sh'', ''.bash'', ''.c'', ''.cpp'', ''.h'', ''.hpp'',
                ''.java'', ''.js'', ''.ts''])"

fun collect_analysis_files :: "(string \<times> string \<times> file_attrs) list \<Rightarrow> analysis_file list" where
  \<comment> \<open>the body of the loop of \<open>_get_analysis_files\<close> over the walked files\<close>
  "collect_analysis_files [] = []"
| "collect_analysis_files ((rel_path, file, a) # rest) =
     (if is_binary_file a \<or> getsize a > 1000000 then collect_analysis_files rest
      else if is_code_file file
      then \<lparr>af_path = rel_path, af_content = utf8_text a\<rparr> # collect_analysis_files rest
      else collect_analysis_files rest)"

definition get_analysis_files :: "fsnode list \<Rightarrow> analysis_file list" where
  "get_analysis_files root = collect_analysis_files (walk root)"

definition looks_like_entry_point :: "analysis_file \<Rightarrow> bool" where
  "looks_like_entry_point file =
     (contains (str_lower (af_path file)) ''main'' \<or> contains (str_lower (af_path file)) ''run''
      \<or> contains (str_lower (af_path file)) ''app'')"

definition potential_entry_points :: "analysis_file list \<Rightarrow> analysis_file list" where
  \<comment> \<open>the files that look like entry points, or all files when none does\<close>
  "potential_entry_points analysis_files =
     (if filter looks_like_entry_point analysis_files = [] then analysis_files
      else filter looks_like_entry_point analysis_files)"

record entry_point =
  ep_path :: string
  ep_main_function :: json
  ep_accepts_arguments :: json
  ep_description :: json
  ep_expected_inputs :: json
  ep_expected_outputs :: json

datatype judged = Unparsed | NotEntryPoint | EntryPoint entry_point

definition loads_reply :: "env \<Rightarrow> string option \<Rightarrow> json option" where
  \<comment> \<open>\<open>json.loads(response)\<close>, \<open>None\<close> when it raises: the reply is not JSON, or
      \<open>response\<close> is \<open>None\<close>\<close>
  "loads_reply env response =
     (case response of None \<Rightarrow> None | Some reply \<Rightarrow> json_loads env reply)"

definition judge :: "env \<Rightarrow> analysis_file \<Rightarrow> string option \<Rightarrow> judged" where
  \<comment> \<open>the \<open>try\<close> block of \<open>_analyze_entry_points\<close>: \<open>Unparsed\<close> when \<open>json.loads\<close>
      raises, or \<open>.get\<close> does because the reply is not a JSON object\<close>
  "judge env file response =
     (case loads_reply env response of
        Some (JObject kvs) \<Rightarrow>
          if truthy (dict_get kvs ''is_entry_point'' (JBool False))
          then EntryPoint
                 \<lparr>ep_path = af_path file,
                  ep_main_function = dict_get kvs ''main_function'' (JString []),
                  ep_accepts_arguments = dict_get kvs ''accepts_arguments'' (JBool False),
                  ep_description = dict_get kvs ''description'' (JString []),
                  ep_expected_inputs = dict_get kvs ''expected_inputs'' (JArray []),
                  ep_expected_outputs = dict_get kvs ''expected_outputs'' (JArray [])\<rparr>
          else NotEntryPoint
      | _ \<Rightarrow> Unparsed)"

fun analyze_candidates :: "agent \<Rightarrow> env \<Rightarrow> analysis_file list \<Rightarrow> entry_point list \<Rightarrow> trace
                            \<Rightarrow> (error + entry_point list) \<times> trace" where
  \<comment> \<open>the loop of \<open>_analyze_entry_points\<close> over the candidates still to analyze\<close>
  "analyze_candidates ag env [] entry_points t = (Inr entry_points, t)"
| "analyze_candidates ag env (file # rest) entry_points t =
     (case query ag (complete env) (entry_point_prompt env (af_path file) (af_content file)) t of
        (Inl e, t1) \<Rightarrow> (Inl e, t1)
      | (Inr response, t1) \<Rightarrow>
          (case judge env file response of
             EntryPoint ep \<Rightarrow> analyze_candidates ag env rest (entry_points @ [ep]) t1
           | NotEntryPoint \<Rightarrow> analyze_candidates ag env rest entry_points t1
           | Unparsed \<Rightarrow>
               analyze_candidates ag env rest entry_points
                 (t1 @ [Log WARNING (''Could not parse LLM response for entry point analysis: ''
                                     @ af_path file)])))"

definition analyze_entry_points :: "agent \<Rightarrow> env \<Rightarrow> analysis_file list \<Rightarrow> trace
                                      \<Rightarrow> (error + entry_point list) \<times> trace" where
  "analyze_entry_points ag env analysis_files t =
     analyze_candidates ag env (potential_entry_points analysis_files) [] t"

definition parse_workflow :: "env \<Rightarrow> entry_point \<Rightarrow> string option \<Rightarrow> json option" where
  \<comment> \<open>the \<open>try\<close> block of \<open>_analyze_workflows\<close>: the parsed object with its
      \<open>'entry_point'\<close> key set, \<open>None\<close> when \<open>json.loads\<close> raises or the item
      assignment does because the reply is not a JSON object\<close>
  "parse_workflow env entry_point response =
     (case loads_reply env response of
        Some (JObject kvs) \<Rightarrow>
          Some (JObject (dict_set kvs ''entry_point'' (JString (ep_path entry_point))))
      | _ \<Rightarrow> None)"

fun analyze_workflows :: "agent \<Rightarrow> env \<Rightarrow> analysis_file list \<Rightarrow> entry_point list \<Rightarrow> json list
                           \<Rightarrow> trace \<Rightarrow> (error + json list) \<times> trace" where
  \<comment> \<open>the loop of \<open>_analyze_workflows\<close> over the entry points still to analyze\<close>
  "analyze_workflows ag env analysis_files [] workflows t = (Inr workflows, t)"
| "analyze_workflows ag env analysis_files (entry_point # rest) workflows t =
     (case find (\<lambda>f. af_path f = ep_path entry_point) analysis_files of
        None \<Rightarrow> analyze_workflows ag env analysis_files rest workflows t
      | Some entry_file \<Rightarrow>
          (case query ag (complete env)
                  (workflow_prompt env (af_path entry_file) (ep_description entry_point)
                     (af_content entry_file)) t of
             (Inl e, t1) \<Rightarrow> (Inl e, t1)
           | (Inr response, t1) \<Rightarrow>
               (case parse_workflow env entry_point response of
                  Some workflow_analysis \<Rightarrow>
                    analyze_workflows ag env analysis_files rest (workflows @ [workflow_analysis]) t1
                | None \<Rightarrow>
                    analyze_workflows ag env analysis_files rest workflows
                      (t1 @ [Log WARNING (''Could not parse LLM response for workflow analysis: ''
                                          @ ep_path entry_point)]))))"

definition analyze_scaling_limitations :: "agent \<Rightarrow> env \<Rightarrow> json list \<Rightarrow> trace
                                             \<Rightarrow> (error + json) \<times> trace" where
  "analyze_scaling_limitations ag env workflows t =
     (if workflows = [] then (Inr (JObject []), t)
      else (case query ag (complete env) (scaling_prompt env workflows) t of
              (Inl e, t1) \<Rightarrow> (Inl e, t1)
            | (Inr response, t1) \<Rightarrow>
                (case loads_reply env response of
                   Some scaling_limitations \<Rightarrow> (Inr scaling_limitations, t1)
                 | None \<Rightarrow>
                     (Inr (JObject []),
                      t1 @ [Log WARNING
                              ''Could not parse LLM response for scaling limitations analysis'']))))"

definition analyze_bottlenecks :: "agent \<Rightarrow> env \<Rightarrow> json list \<Rightarrow> trace \<Rightarrow> (error + json) \<times> trace" where
  "analyze_bottlenecks ag env workflows t =
     (if workflows = [] then (Inr (JArray []), t)
      else (case query ag (complete env) (bottleneck_prompt env workflows) t of
              (Inl e, t1) \<Rightarrow> (Inl e, t1)
            | (Inr response, t1) \<Rightarrow>
                (case loads_reply env response of
                   Some bottlenecks \<Rightarrow> (Inr bottlenecks, t1)
                 | None \<Rightarrow>
                     (Inr (JArray []),
                      t1 @ [Log WARNING
                              ''Could not parse LLM response for bottlenecks analysis'']))))"

record workflow_analysis =
  wa_entry_points :: "entry_point list"
  wa_workflows :: "json list"
  wa_scaling_limitations :: json
  wa_bottlenecks :: json

definition raised :: "error \<Rightarrow> trace \<Rightarrow> (error + 'a) \<times> trace" where
  \<comment> \<open>the \<open>except Exception\<close> clause of \<open>analyze_workflow\<close>: log the error, raise it again\<close>
  "raised e t = (Inl e, t @ [Log ERROR (''Error analyzing workflow: '' @ str_error e)])"

definition analyze_workflow :: "agent \<Rightarrow> env \<Rightarrow> string \<Rightarrow> fsnode list \<Rightarrow> trace
                                  \<Rightarrow> (error + workflow_analysis) \<times> trace" where
  \<comment> \<open>\<open>root\<close> is the listing of the directory at the repository path \<open>path\<close>\<close>
  "analyze_workflow ag env path root t =
     (let t0 = t @ [Log INFO (''Analyzing workflow for repository at '' @ path)];
          analysis_files = get_analysis_files root
      in case analyze_entry_points ag env analysis_files t0 of
           (Inl e, t1) \<Rightarrow> raised e t1
         | (Inr entry_points, t1) \<Rightarrow>
             (case analyze_workflows ag env analysis_files entry_points [] t1 of
                (Inl e, t2) \<Rightarrow> raised e t2
              | (Inr workflows, t2) \<Rightarrow>
                  (case analyze_scaling_limitations ag env workflows t2 of
                     (Inl e, t3) \<Rightarrow> raised e t3
                   | (Inr scaling_limitations, t3) \<Rightarrow>
                       (case analyze_bottlenecks ag env workflows t3 of
                          (Inl e, t4) \<Rightarrow> raised e t4
                        | (Inr bottlenecks, t4) \<Rightarrow>
                            (Inr \<lparr>wa_entry_points = entry_points, wa_workflows = workflows,
                                  wa_scaling_limitations = scaling_limitations,
                                  wa_bottlenecks = bottlenecks\<rparr>,
                             t4 @ [Log INFO (''Workflow analysis complete. Found ''
                                             @ str_nat (length workflows) @ '' workflows.'')])))))"

section \<open>documentation_publisher.py\<close>

definition safe_filename :: "string \<Rightarrow> string" where
  \<comment> \<open>\<open>filename.replace(' ', '_').replace('/', '_').replace('\\', '_').replace(':', '_')\<close>\<close>
  "safe_filename filename =
     replace_char (CHR '':'') (CHR ''_'')
       (replace_char (CHR 0x5C) (CHR ''_'')
         (replace_char (CHR ''/'') (CHR ''_'')
           (replace_char (CHR '' '') (CHR ''_'') filename)))"

section \<open>Scenario data\<close>

text \<open>
  The lines of \<open>requirements.txt\<close> that count as dependencies: a line is blank when it
  holds only whitespace, and a comment when its first character after leading whitespace
  is \<open>#\<close>.
\<close>

definition blank_line :: "string \<Rightarrow> bool" where
  "blank_line l = list_all is_space l"

definition comment_line :: "string \<Rightarrow> bool" where
  "comment_line l = (case dropWhile is_space l of [] \<Rightarrow> False | c # cs \<Rightarrow> c = CHR ''#'')"

text \<open>A small repository used to instantiate the theorems below.\<close>

definition demo_main :: file_attrs where
  "demo_main =
     \<lparr>getsize = 8, head_decodes = True, locale_text = Some ''print(1)'', utf8_text = ''print(1)''\<rparr>"

definition demo_requirements :: string where
  "demo_requirements =
     ''requests==2.31'' @ [CHR 0x0A] @ ''  # pinned below'' @ [CHR 0x0A] @ [CHR 0x0A]
     @ ''numpy'' @ [CHR 0x0A]"

definition demo_req :: file_attrs where
  "demo_req =
     \<lparr>getsize = 40, head_decodes = True, locale_text = Some demo_requirements,
      utf8_text = demo_requirements\<rparr>"

definition demo_blob :: file_attrs where
  "demo_blob = \<lparr>getsize = 512, head_decodes = False, locale_text = None, utf8_text = []\<rparr>"

definition demo_big :: file_attrs where
  "demo_big =
     \<lparr>getsize = 1000001, head_decodes = True, locale_text = Some ''a,b'', utf8_text = ''a,b''\<rparr>"

definition demo_handler :: handler where
  "demo_handler = \<lparr>repo_name = ''demo'', repo_path = ''/work/repos/demo''\<rparr>"

definition demo_root :: "fsnode list" where
  "demo_root =
     [File ''main.py'' demo_main, File ''logo.png'' demo_blob,
      Dir ''.git'' [File ''HEAD'' demo_main],
      Dir ''data'' [File ''big.csv'' demo_big, File ''notes.txt'' demo_main]]"

definition demo_result :: repo_structure where
  "demo_result =
     \<lparr>rs_name = ''demo'', rs_path = ''/work/repos/demo'',
      rs_files = [\<lparr>fr_path = ''main.py'', fr_type = ''python'', fr_size = 8\<rparr>,
                  \<lparr>fr_path = ''data/notes.txt'', fr_type = ''text'', fr_size = 8\<rparr>],
      rs_languages = [(''python'', 1), (''text'', 1)],
      rs_entry_points = [''main.py''],
      rs_dependencies = \<lparr>dep_python = [], dep_r = [], dep_system = []\<rparr>\<rparr>"

definition demo_description :: file_attrs where
  "demo_description =
     \<lparr>getsize = 23, head_decodes = True, locale_text = Some ''Imports: dplyr, ggplot2'',
      utf8_text = ''Imports: dplyr, ggplot2''\<rparr>"

section \<open>Properties of the publisher\<close>

lemma safe_filename_map:
  "safe_filename s =
     map (\<lambda>c. if c = CHR '' '' \<or> c = CHR ''/'' \<or> c = CHR 0x5C \<or> c = CHR '':'' then CHR ''_'' else c) s"
  by (simp add: safe_filename_def replace_char_def)

text \<open>
  Claim C6. The filename sanitizer is idempotent. It replaces every space, forward slash,
  backslash and colon with an underscore and leaves every other character as it is, so the
  result has the length of the input and runs of underscores are not collapsed; the names
  "Data Import" and "Data Import " (trailing space) are sent to the distinct names
  "Data_Import" and "Data_Import_".
\<close>

theorem safe_filename_idempotent:
  "safe_filename (safe_filename s) = safe_filename s
   \<and> safe_filename s =
       map (\<lambda>c. if c = CHR '' '' \<or> c = CHR ''/'' \<or> c = CHR 0x5C \<or> c = CHR '':'' then CHR ''_'' else c) s
   \<and> length (safe_filename s) = length s
   \<and> safe_filename ''Data Import'' = ''Data_Import''
   \<and> safe_filename ''Data Import '' = ''Data_Import_''
   \<and> safe_filename ''Data Import'' \<noteq> safe_filename ''Data Import ''"
  by (simp add: safe_filename_map)

section \<open>Properties of the repository handler\<close>

lemma walk_dir_subset: "set (walk_dir rel d) \<subseteq> set (files_under_dir rel d)"
proof (induction rel d rule: walk_dir.induct)
  case (1 rel n a)
  show ?case by simp
next
  case (2 rel n es)
  show ?case
  proof
    fix x assume "x \<in> set (walk_dir rel (Dir n es))"
    then have "x \<in> (\<lambda>(f, a). (join_path rel f, f, a)) ` set (nondirs es)
      \<or> (\<exists>d. d \<in> set (remove_git (subdirs es)) \<and> x \<in> set (walk_dir (join_path rel (node_name d)) d))"
      by auto
    then show "x \<in> set (files_under_dir rel (Dir n es))"
    proof (elim disjE exE conjE)
      assume "x \<in> (\<lambda>(f, a). (join_path rel f, f, a)) ` set (nondirs es)"
      then show ?thesis by simp
    next
      fix d
      assume m: "d \<in> set (remove_git (subdirs es))"
        and x: "x \<in> set (walk_dir (join_path rel (node_name d)) d)"
      from m have d: "d \<in> set (subdirs es)"
        using remove_git_subset by blast
      from "2.IH" [OF m] x have "x \<in> set (files_under_dir (join_path rel (node_name d)) d)"
        by blast
      with d show ?thesis by auto
    qed
  qed
qed

lemma walk_subset_files_under: "set (walk root) \<subseteq> set (files_under root)"
  unfolding walk_def files_under_def by (rule walk_dir_subset)

lemma scan_files:
  "fst (scan xs (files, languages)) =
     files @ map (\<lambda>(p, n, a). \<lparr>fr_path = p, fr_type = determine_file_type n, fr_size = getsize a\<rparr>)
               (filter (\<lambda>(p, n, a). \<not> (is_binary_file a \<or> getsize a > 1000000)) xs)"
  by (induction xs "(files, languages)" arbitrary: files languages rule: scan.induct)
     (simp_all add: Let_def)

lemma analyze_files:
  "analyze_repository_structure h root = Inr rs \<Longrightarrow>
   rs_files rs = map (\<lambda>(p, n, a). \<lparr>fr_path = p, fr_type = determine_file_type n, fr_size = getsize a\<rparr>)
               (filter (\<lambda>(p, n, a). \<not> (is_binary_file a \<or> getsize a > 1000000)) (walk root))"
  using scan_files [of "walk root" "[]" "[]"]
  by (auto simp: analyze_repository_structure_def split: prod.splits sum.splits)

text \<open>
  Claim C2. Every file under the repository root whose first 1KB does not decode as text,
  or whose size exceeds 1,000,000 bytes, is left out of the file list that
  \<open>analyze_repository_structure\<close> returns, whatever its name, type or place in the tree.
  Paths identify files: no two files of the tree have the same relative path.
\<close>

theorem binary_or_oversized_excluded:
  assumes "(p, n, a) \<in> set (files_under root)"
    and "distinct (map fst (files_under root))"
    and "\<not> head_decodes a \<or> getsize a > 1000000"
    and "analyze_repository_structure h root = Inr rs"
  shows "p \<notin> fr_path ` set (rs_files rs)"
proof
  assume "p \<in> fr_path ` set (rs_files rs)"
  then obtain n' a' where w: "(p, n', a') \<in> set (walk root)"
    and k: "\<not> (is_binary_file a' \<or> getsize a' > 1000000)"
    unfolding analyze_files [OF assms(4)] by auto
  from w have "(p, n', a') \<in> set (files_under root)"
    using walk_subset_files_under by blast
  with assms(1,2) have "(n', a') = (n, a)"
    by (meson eq_key_imp_eq_value)
  with k assms(3) show False by (auto simp: is_binary_file_def)
qed

lemma demo_file_types:
  "determine_file_type ''main.py'' = ''python''"
  "determine_file_type ''notes.txt'' = ''text''"
  by code_simp+

theorem binary_or_oversized_excluded_witness:
  "(''data/big.csv'', ''big.csv'', demo_big) \<in> set (files_under demo_root)
   \<and> distinct (map fst (files_under demo_root))
   \<and> getsize demo_big > 1000000
   \<and> analyze_repository_structure demo_handler demo_root = Inr demo_result
   \<and> ''data/big.csv'' \<notin> fr_path ` set (rs_files demo_result)"
proof -
  have h1: "(''data/big.csv'', ''big.csv'', demo_big) \<in> set (files_under demo_root)"
    by (simp add: files_under_def demo_root_def join_path_def)
  have h2: "distinct (map fst (files_under demo_root))"
    by (simp add: files_under_def demo_root_def join_path_def)
  have h3: "getsize demo_big > 1000000"
    by (simp add: demo_big_def)
  have h4: "analyze_repository_structure demo_handler demo_root = Inr demo_result"
    by (simp add: analyze_repository_structure_def walk_def join_path_def is_binary_file_def
          demo_root_def demo_main_def demo_big_def demo_blob_def demo_handler_def demo_result_def
          demo_file_types identify_dependencies_def python_dependencies_def r_dependencies_def
          endswith_def Let_def)
  have c: "''data/big.csv'' \<notin> fr_path ` set (rs_files demo_result)"
    by (rule binary_or_oversized_excluded [OF h1 h2 disjI2 [OF h3] h4])
  from h1 h2 h3 h4 c show ?thesis by blast
qed

lemma strip_Nil: "strip l = [] \<longleftrightarrow> blank_line l"
proof (cases "dropWhile is_space l")
  case Nil
  have "strip l = []"
    unfolding strip_def Nil by simp
  moreover have "blank_line l"
    using Nil by (simp add: blank_line_def list_all_iff)
  ultimately show ?thesis by simp
next
  case (Cons c cs)
  then have n: "\<not> is_space c"
    by (metis hd_dropWhile list.sel(1) list.distinct(1))
  have "c \<in> set l"
    using Cons by (metis list.set_intros(1) set_dropWhileD)
  with n have "\<not> blank_line l"
    by (auto simp: blank_line_def list_all_iff)
  moreover have "strip l \<noteq> []"
    using n Cons by (simp add: strip_def dropWhile_append3)
  ultimately show ?thesis by simp
qed

lemma strip_Cons:
  assumes "dropWhile is_space l = c # cs"
  shows "\<exists>cs'. strip l = c # cs'"
proof -
  have "\<not> is_space c"
    using assms by (metis hd_dropWhile list.sel(1) list.distinct(1))
  then have "dropWhile is_space (rev cs @ [c]) = dropWhile is_space (rev cs) @ [c]"
    by (simp add: dropWhile_append3)
  then show ?thesis by (simp add: strip_def assms)
qed

lemma requirement_test:
  "(strip l \<noteq> [] \<and> \<not> startswith (strip l) ''#'') \<longleftrightarrow> (\<not> blank_line l \<and> \<not> comment_line l)"
proof (cases "dropWhile is_space l")
  case Nil
  then have "blank_line l" by (simp add: blank_line_def list_all_iff)
  then show ?thesis using strip_Nil by simp
next
  case (Cons c cs)
  then obtain cs' where s: "strip l = c # cs'" using strip_Cons by blast
  then have "\<not> blank_line l" using strip_Nil [of l] by simp
  then show ?thesis using s Cons by (simp add: comment_line_def)
qed

lemma requirement_lines_filter:
  "requirement_lines ls = map strip (filter (\<lambda>l. \<not> blank_line l \<and> \<not> comment_line l) ls)"
  by (induction ls) (simp_all add: Let_def requirement_test del: startswith.simps)

lemma walk_flat: "subdirs es = [] \<Longrightarrow> walk es = map (\<lambda>(n, a). (join_path [] n, n, a)) (nondirs es)"
  by (simp add: walk_def)

lemma ep_main: "endswith ''main.py'' ''main.py''"
  by (simp add: endswith_def)

lemma ep_req:
  "\<not> endswith ''requirements.txt'' ''main.py''" "\<not> endswith ''requirements.txt'' ''run.py''"
  "\<not> endswith ''requirements.txt'' ''app.py''" "\<not> endswith ''requirements.txt'' ''setup.py''"
  "\<not> startswith ''requirements.txt'' ''bin/''"
  by (simp_all add: endswith_def)

text \<open>
  Claim C1 (scenario A). A repository whose top directory holds exactly the file
  \<open>main.py\<close> (any content that decodes, at most 1,000,000 bytes) and a
  \<open>requirements.txt\<close> with exactly two lines that are neither blank nor comments, in
  either listing order: \<open>analyze_repository_structure\<close> returns a descriptor whose
  entry points are exactly \<open>['main.py']\<close> and whose python dependency list has
  length 2.
\<close>

theorem scenario_A:
  assumes m: "head_decodes a1" "getsize a1 \<le> 1000000"
    and t: "locale_text a2 = Some t"
    and two: "length (filter (\<lambda>l. \<not> blank_line l \<and> \<not> comment_line l) (readlines t)) = 2"
    and root: "root = [File ''main.py'' a1, File ''requirements.txt'' a2]
             \<or> root = [File ''requirements.txt'' a2, File ''main.py'' a1]"
  shows "\<exists>rs. analyze_repository_structure h root = Inr rs
              \<and> rs_entry_points rs = [''main.py'']
              \<and> length (dep_python (rs_dependencies rs)) = 2"
proof -
  have py: "python_dependencies root = Inr (requirement_lines (readlines t))"
    using root t by (auto simp: python_dependencies_def)
  have r: "r_dependencies root = Inr []"
    using root by (auto simp: r_dependencies_def)
  have deps: "identify_dependencies root
      = Inr \<lparr>dep_python = requirement_lines (readlines t), dep_r = [], dep_system = []\<rparr>"
    by (simp add: identify_dependencies_def py r)
  have len: "length (requirement_lines (readlines t)) = 2"
    by (simp add: requirement_lines_filter two)
  have k1: "\<not> (is_binary_file a1 \<or> getsize a1 > 1000000)"
    using m by (simp add: is_binary_file_def)
  have ep: "identify_entry_points (fst (scan (walk root) ([], []))) = [''main.py'']"
    using root k1
    by (auto simp: walk_flat join_path_def Let_def ep_main ep_req simp del: startswith.simps)
  obtain fs ls where sc: "scan (walk root) ([], []) = (fs, ls)"
    by (cases "scan (walk root) ([], [])")
  show ?thesis
    using ep len by (simp add: analyze_repository_structure_def deps sc)
qed

theorem scenario_A_witness:
  "head_decodes demo_main \<and> getsize demo_main \<le> 1000000
   \<and> locale_text demo_req = Some demo_requirements
   \<and> length (filter (\<lambda>l. \<not> blank_line l \<and> \<not> comment_line l) (readlines demo_requirements)) = 2
   \<and> (\<exists>rs. analyze_repository_structure demo_handler
               [File ''main.py'' demo_main, File ''requirements.txt'' demo_req] = Inr rs
           \<and> rs_entry_points rs = [''main.py'']
           \<and> length (dep_python (rs_dependencies rs)) = 2)"
proof -
  have h1: "head_decodes demo_main" by (simp add: demo_main_def)
  have h2: "getsize demo_main \<le> 1000000" by (simp add: demo_main_def)
  have h3: "locale_text demo_req = Some demo_requirements" by (simp add: demo_req_def)
  have h4: "length (filter (\<lambda>l. \<not> blank_line l \<and> \<not> comment_line l)
                      (readlines demo_requirements)) = 2"
    by code_simp
  show ?thesis
    using h1 h2 h3 h4
      scenario_A [OF h1 h2 h3 h4,
        of "[File ''main.py'' demo_main, File ''requirements.txt'' demo_req]" demo_handler]
    by simp
qed

text \<open>
  Claim C8. For a \<open>DESCRIPTION\<close> manifest with an \<open>Imports:\<close> section the claim asks
  that every comma-separated package of a line reaches the r dependency list. The code
  keeps \<open>line.strip().split(',')[0]\<close>, the text before the first comma of each line:
  on the manifest \<open>Imports: dplyr, ggplot2\<close> the r list is \<open>['dplyr']\<close>, and
  \<open>ggplot2\<close> is lost.
\<close>

theorem description_imports_keeps_first_entry_only:
  "identify_dependencies [File ''DESCRIPTION'' demo_description]
     = Inr \<lparr>dep_python = [], dep_r = [''dplyr''], dep_system = []\<rparr>"
  by code_simp

end
